theory Spec2Isabelle
  imports Main "HOL-Library.Word"
begin

section \<open>Equality and hash algorithm kinds of compiler types (types/alg.go)\<close>

text \<open>
  The source unit \<^verbatim>\<open>cmd/compile/internal/types/alg.go\<close> decides, for a type of the
  compiler's type graph, which algorithm compares and hashes its values. This theory embeds
  its five functions \<^verbatim>\<open>AlgType\<close>, \<^verbatim>\<open>TypeHasNoAlg\<close>, \<^verbatim>\<open>IsComparable\<close>,
  \<^verbatim>\<open>IncomparableField\<close> and \<^verbatim>\<open>IsPaddedField\<close> and proves their properties.
\<close>

subsection \<open>Data model\<close>

text \<open>
  Go's \<^verbatim>\<open>int64\<close> (widths, offsets, array bounds): 64-bit words, on which \<open>+\<close> wraps.
\<close>

type_synonym int64 = "64 word"

text \<open>
  Modelled from the spec: the declaration of \<^verbatim>\<open>Kind\<close> is in \<^verbatim>\<open>type.go\<close>, which is not part
  of the source unit. The constructors are the kinds that the switch of \<^verbatim>\<open>AlgType\<close> names;
  \<open>TOTHER n\<close> stands for every kind value that the switch does not name (the spec's
  "Kind outside the closed set").
\<close>

datatype Kind =
    TANY | TFORW
  | TINT8 | TUINT8 | TINT16 | TUINT16
  | TINT32 | TUINT32 | TINT64 | TUINT64
  | TINT | TUINT | TUINTPTR
  | TBOOL | TPTR
  | TCHAN | TUNSAFEPTR
  | TFUNC | TMAP
  | TFLOAT32 | TFLOAT64
  | TCOMPLEX64 | TCOMPLEX128
  | TSTRING | TINTER | TSLICE | TARRAY | TSTRUCT
  | TOTHER nat

text \<open>
  \<^verbatim>\<open>AlgKind\<close>, lines 11 to 37 of the source. The numeric values (\<^verbatim>\<open>iota\<close> from 0,
  \<^verbatim>\<open>AMEM = 100\<close>, \<^verbatim>\<open>ASPECIAL = -1\<close>) are pairwise distinct and the code only compares
  tags for equality, so the enumeration is a datatype.
\<close>

datatype AlgKind =
    ANOEQ | AMEM0 | AMEM8 | AMEM16 | AMEM32 | AMEM64 | AMEM128
  | ASTRING | AINTER | ANILINTER | AFLOAT32 | AFLOAT64 | ACPLX64 | ACPLX128
  | ANOALG | AMEM | ASPECIAL

text \<open>
  Modelled from the spec: \<^verbatim>\<open>Sym\<close>, \<^verbatim>\<open>Type\<close> and \<^verbatim>\<open>Field\<close> and their accessors are
  declared in files that are not part of the source unit. A \<^verbatim>\<open>Sym\<close> carries what
  \<^verbatim>\<open>Sym.IsBlank()\<close> answers. A \<^verbatim>\<open>Type\<close> node has its \<open>Kind\<close>, its \<open>Noalg\<close> flag, its
  byte \<open>width\<close> and a kind-specific payload \<open>extra\<close>: for an interface whether it is the
  empty interface, for an array the element type and the element count, for a struct the
  ordered fields. A \<^verbatim>\<open>Field\<close> has its \<open>Sym\<close>, its \<open>Type\<close> and its byte \<open>Offset\<close>.
  Component types are held by value, so the graph is a finite tree per path, as the spec
  states (a struct cannot contain itself by value).
\<close>

datatype Sym = MkSym (IsBlank: bool)

datatype Type = MkType (Kind: Kind) (Noalg: bool) (width: int64) (extra: Extra)
and Extra = NoExtra | Interface bool | Array Type int64 | Struct "Field list"
and Field = MkField (Sym: Sym) (Type: Type) (Offset: int64)

text \<open>
  Failures are values. \<open>Fatalf_AlgType\<close> is the \<^verbatim>\<open>base.Fatalf\<close> of line 127 and
  \<open>Fatalf_IsPaddedField\<close> the one of line 157: the compiler's fatal abort, after which
  nothing runs (the \<^verbatim>\<open>return 0\<close> of line 128 is never reached). \<open>Panic_index\<close> is Go's
  run-time panic on indexing the field slice out of range. \<open>Panic_extra\<close> is the failure of
  an accessor applied to a node whose payload is of another shape than its kind demands.
\<close>

datatype error = Fatalf_AlgType | Fatalf_IsPaddedField | Panic_extra | Panic_index

text \<open>
  Modelled from the spec: the accessors \<^verbatim>\<open>IsStruct\<close>, \<^verbatim>\<open>Fields\<close>, \<^verbatim>\<open>Field(i)\<close> and
  \<^verbatim>\<open>Field.End\<close> of \<^verbatim>\<open>type.go\<close>. \<^verbatim>\<open>NumFields\<close> is the length of \<^verbatim>\<open>Fields\<close>; a field's end
  offset is its offset plus its type's width.
\<close>

definition IsStruct :: "Type \<Rightarrow> bool" where
  "IsStruct t = (Kind t = TSTRUCT)"

definition Fields :: "Type \<Rightarrow> error + Field list" where
  "Fields t = (case extra t of Struct fs \<Rightarrow> Inr fs | _ \<Rightarrow> Inl Panic_extra)"

definition Field_at :: "Field list \<Rightarrow> int \<Rightarrow> error + Field" where
  "Field_at fs i = (if 0 \<le> i \<and> i < int (length fs) then Inr (fs ! nat i) else Inl Panic_index)"

definition End :: "Field \<Rightarrow> int64" where
  "End f = Offset f + width (Type f)"

subsection \<open>IsPaddedField (lines 155 to 164)\<close>

text \<open>
  \<^verbatim>\<open>end\<close> is the struct's width, or the offset of field \<open>i + 1\<close> when there is one; the
  result is whether the end offset of field \<open>i\<close> differs from \<^verbatim>\<open>end\<close>. The index is a Go
  \<^verbatim>\<open>int\<close>; an index outside the fields panics.
\<close>

definition IsPaddedField :: "Type \<Rightarrow> int \<Rightarrow> error + bool" where
  "IsPaddedField t i =
     (if \<not> IsStruct t then Inl Fatalf_IsPaddedField
      else case Fields t of
        Inl e \<Rightarrow> Inl e
      | Inr fs \<Rightarrow>
          (case (if i + 1 < int (length fs)
                 then (case Field_at fs (i + 1) of Inl e \<Rightarrow> Inl e | Inr g \<Rightarrow> Inr (Offset g))
                 else Inr (width t)) of
             Inl e \<Rightarrow> Inl e
           | Inr end \<Rightarrow>
               (case Field_at fs i of
                  Inl e \<Rightarrow> Inl e
                | Inr f \<Rightarrow> Inr (End f \<noteq> end))))"

subsection \<open>AlgType (lines 40 to 129)\<close>

text \<open>
  \<open>AlgType_fields t fields i ret\<close> is the \<^verbatim>\<open>for i, f := range fields\<close> loop of lines 110
  to 122 from index \<open>i\<close> on, with the accumulator \<^verbatim>\<open>ret\<close>; \<open>fields\<close> are the fields not
  yet visited. The condition of line 119 is evaluated left to right, so \<^verbatim>\<open>IsPaddedField\<close>
  is called only for a non-blank field whose type is \<open>AMEM\<close>.
\<close>

lemma size_Field_Type: "size (Type f) < size f"
  by (cases f) simp

function (sequential) AlgType :: "Type \<Rightarrow> error + AlgKind"
and AlgType_fields :: "Type \<Rightarrow> Field list \<Rightarrow> int \<Rightarrow> AlgKind \<Rightarrow> error + AlgKind" where
  "AlgType (MkType k na w ex) =
     (if na then Inr ANOALG
      else case k of
        TANY \<Rightarrow> Inr ANOEQ
      | TFORW \<Rightarrow> Inr ANOEQ
      | TINT8 \<Rightarrow> Inr AMEM | TUINT8 \<Rightarrow> Inr AMEM | TINT16 \<Rightarrow> Inr AMEM | TUINT16 \<Rightarrow> Inr AMEM
      | TINT32 \<Rightarrow> Inr AMEM | TUINT32 \<Rightarrow> Inr AMEM | TINT64 \<Rightarrow> Inr AMEM | TUINT64 \<Rightarrow> Inr AMEM
      | TINT \<Rightarrow> Inr AMEM | TUINT \<Rightarrow> Inr AMEM | TUINTPTR \<Rightarrow> Inr AMEM
      | TBOOL \<Rightarrow> Inr AMEM | TPTR \<Rightarrow> Inr AMEM
      | TCHAN \<Rightarrow> Inr AMEM | TUNSAFEPTR \<Rightarrow> Inr AMEM
      | TFUNC \<Rightarrow> Inr ANOEQ
      | TMAP \<Rightarrow> Inr ANOEQ
      | TFLOAT32 \<Rightarrow> Inr AFLOAT32
      | TFLOAT64 \<Rightarrow> Inr AFLOAT64
      | TCOMPLEX64 \<Rightarrow> Inr ACPLX64
      | TCOMPLEX128 \<Rightarrow> Inr ACPLX128
      | TSTRING \<Rightarrow> Inr ASTRING
      | TINTER \<Rightarrow>
          (case ex of
             Interface is_empty \<Rightarrow> if is_empty then Inr ANILINTER else Inr AINTER
           | _ \<Rightarrow> Inl Panic_extra)
      | TSLICE \<Rightarrow> Inr ANOEQ
      | TARRAY \<Rightarrow>
          (case ex of
             Array elem n \<Rightarrow>
               (case AlgType elem of
                  Inl e \<Rightarrow> Inl e
                | Inr a \<Rightarrow>
                    if a = AMEM \<or> a = ANOEQ \<or> a = ANOALG then Inr a
                    else if n = 0 then Inr AMEM
                    else if n = 1 then Inr a
                    else Inr ASPECIAL)
           | _ \<Rightarrow> Inl Panic_extra)
      | TSTRUCT \<Rightarrow>
          (case ex of
             Struct fields \<Rightarrow>
               if length fields = 1 \<and> \<not> IsBlank (Sym (fields ! 0))
               then AlgType (Type (fields ! 0))
               else AlgType_fields (MkType k na w ex) fields 0 AMEM
           | _ \<Rightarrow> Inl Panic_extra)
      | TOTHER _ \<Rightarrow> Inl Fatalf_AlgType)"
| "AlgType_fields t [] i ret = Inr ret"
| "AlgType_fields t (f # fs) i ret =
     (case AlgType (Type f) of
        Inl e \<Rightarrow> Inl e
      | Inr a \<Rightarrow>
          if a = ANOEQ \<or> a = ANOALG then Inr a
          else if a \<noteq> AMEM \<or> IsBlank (Sym f) then AlgType_fields t fs (i + 1) ASPECIAL
          else (case IsPaddedField t i of
                  Inl e \<Rightarrow> Inl e
                | Inr p \<Rightarrow> AlgType_fields t fs (i + 1) (if p then ASPECIAL else ret)))"
  by pat_completeness auto

termination
proof (relation "measure (case_sum size (\<lambda>(t, fs, i, ret). size_list size fs))", goal_cases)
  case 1
  show ?case by simp
next
  case (2 k na w ex elem n)
  then show ?case by simp
next
  case (3 k na w ex fields)
  then obtain f where "fields = [f]" by (cases fields) auto
  then show ?case using 3 size_Field_Type [of f] by simp
next
  case (4 k na w ex fields)
  then show ?case by simp
next
  case (5 t f fs i ret)
  then show ?case using size_Field_Type [of f] by simp
next
  case 6
  then show ?case by simp
next
  case 7
  then show ?case by simp
qed

subsection \<open>TypeHasNoAlg, IsComparable, IncomparableField (lines 133 to 151)\<close>

definition TypeHasNoAlg :: "Type \<Rightarrow> error + bool" where
  "TypeHasNoAlg t = (case AlgType t of Inl e \<Rightarrow> Inl e | Inr a \<Rightarrow> Inr (a = ANOALG))"

definition IsComparable :: "Type \<Rightarrow> error + bool" where
  "IsComparable t =
     (case AlgType t of Inl e \<Rightarrow> Inl e | Inr a \<Rightarrow> Inr (a \<noteq> ANOEQ \<and> a \<noteq> ANOALG))"

text \<open>
  The loop of \<^verbatim>\<open>IncomparableField\<close> over the fields; \<^verbatim>\<open>nil\<close> is \<open>None\<close>.
\<close>

fun IncomparableField_loop :: "Field list \<Rightarrow> error + Field option" where
  "IncomparableField_loop [] = Inr None"
| "IncomparableField_loop (f # fs) =
     (case IsComparable (Type f) of
        Inl e \<Rightarrow> Inl e
      | Inr c \<Rightarrow> if \<not> c then Inr (Some f) else IncomparableField_loop fs)"

definition IncomparableField :: "Type \<Rightarrow> error + Field option" where
  "IncomparableField t =
     (case Fields t of Inl e \<Rightarrow> Inl e | Inr fs \<Rightarrow> IncomparableField_loop fs)"

subsection \<open>Preconditions on the type graph\<close>

text \<open>
  The two invariants that the type graph handed to \<^verbatim>\<open>AlgType\<close> is assumed to satisfy.
  \<open>kinds_closed t\<close>: every node of \<open>t\<close> has a kind that the switch of \<^verbatim>\<open>AlgType\<close>
  names. \<open>payload_ok t\<close>: every interface, array and struct node of \<open>t\<close> carries the
  payload of its kind.
\<close>

lemma size_Type_in_fields [termination_simp]:
  "f \<in> set fs \<Longrightarrow> size (Type f) < Suc (size_list size fs)"
  using size_Field_Type [of f] by (induction fs) auto

definition named_kind :: "Kind \<Rightarrow> bool" where
  "named_kind k = (case k of TOTHER _ \<Rightarrow> False | _ \<Rightarrow> True)"

fun kinds_closed :: "Type \<Rightarrow> bool" where
  "kinds_closed (MkType k na w ex) =
     (named_kind k \<and>
      (case ex of
         Array elem n \<Rightarrow> kinds_closed elem
       | Struct fields \<Rightarrow> list_all (\<lambda>f. kinds_closed (Type f)) fields
       | _ \<Rightarrow> True))"

fun payload_ok :: "Type \<Rightarrow> bool" where
  "payload_ok (MkType k na w ex) =
     (case k of
        TINTER \<Rightarrow> (case ex of Interface is_empty \<Rightarrow> True | _ \<Rightarrow> False)
      | TARRAY \<Rightarrow> (case ex of Array elem n \<Rightarrow> payload_ok elem | _ \<Rightarrow> False)
      | TSTRUCT \<Rightarrow>
          (case ex of Struct fields \<Rightarrow> list_all (\<lambda>f. payload_ok (Type f)) fields | _ \<Rightarrow> False)
      | _ \<Rightarrow> True)"

text \<open>
  \<open>laid_out t\<close>: the layout that the layout computation gives a struct, as far as the
  padding check depends on it. No field extends past the start of the next field, and the
  last field does not extend past the struct's width; offsets and widths are compared as
  signed 64-bit integers.
\<close>

fun laid_out_fields :: "Field list \<Rightarrow> int64 \<Rightarrow> bool" where
  "laid_out_fields [] w = True"
| "laid_out_fields [f] w = (End f \<le>s w)"
| "laid_out_fields (f # g # fs) w = (End f \<le>s Offset g \<and> laid_out_fields (g # fs) w)"

definition laid_out :: "Type \<Rightarrow> bool" where
  "laid_out t = (case extra t of Struct fs \<Rightarrow> laid_out_fields fs (width t) | _ \<Rightarrow> True)"

subsection \<open>Example types\<close>

text \<open>
  Concrete types and fields at which the theorems below are instantiated: primitive types
  with their usual widths, a map, an \<^verbatim>\<open>int32\<close> whose \<open>Noalg\<close> flag is set, and named
  and blank fields.
\<close>

abbreviation int8_type :: Type where "int8_type \<equiv> MkType TINT8 False 1 NoExtra"
abbreviation int32_type :: Type where "int32_type \<equiv> MkType TINT32 False 4 NoExtra"
abbreviation int64_type :: Type where "int64_type \<equiv> MkType TINT64 False 8 NoExtra"
abbreviation float32_type :: Type where "float32_type \<equiv> MkType TFLOAT32 False 4 NoExtra"
abbreviation float64_type :: Type where "float64_type \<equiv> MkType TFLOAT64 False 8 NoExtra"
abbreviation map_type :: Type where "map_type \<equiv> MkType TMAP False 8 NoExtra"
abbreviation noalg_int32_type :: Type where "noalg_int32_type \<equiv> MkType TINT32 True 4 NoExtra"
abbreviation named :: "Type \<Rightarrow> int64 \<Rightarrow> Field" where "named t off \<equiv> MkField (MkSym False) t off"
abbreviation blank :: "Type \<Rightarrow> int64 \<Rightarrow> Field" where "blank t off \<equiv> MkField (MkSym True) t off"

section \<open>Properties\<close>

subsection \<open>The cases of AlgType, one equation each\<close>

lemma AlgType_flagged: "AlgType (MkType k True w ex) = Inr ANOALG"
  by simp

lemma AlgType_array:
  "AlgType (MkType TARRAY False w (Array elem n)) =
     (case AlgType elem of
        Inl e \<Rightarrow> Inl e
      | Inr a \<Rightarrow>
          if a = AMEM \<or> a = ANOEQ \<or> a = ANOALG then Inr a
          else if n = 0 then Inr AMEM
          else if n = 1 then Inr a
          else Inr ASPECIAL)"
  by simp

lemma AlgType_struct:
  "AlgType (MkType TSTRUCT False w (Struct fields)) =
     (if length fields = 1 \<and> \<not> IsBlank (Sym (fields ! 0))
      then AlgType (Type (fields ! 0))
      else AlgType_fields (MkType TSTRUCT False w (Struct fields)) fields 0 AMEM)"
  by simp

lemma AlgType_struct_single:
  "\<not> IsBlank (Sym f) \<Longrightarrow> AlgType (MkType TSTRUCT False w (Struct [f])) = AlgType (Type f)"
  by simp

lemma AlgType_struct_loop:
  "\<not> (length fields = 1 \<and> \<not> IsBlank (Sym (fields ! 0))) \<Longrightarrow>
   AlgType (MkType TSTRUCT False w (Struct fields)) =
     AlgType_fields (MkType TSTRUCT False w (Struct fields)) fields 0 AMEM"
  by (simp only: AlgType_struct if_False)

text \<open>On a struct and an index inside its fields the padding check returns.\<close>

lemma IsPaddedField_struct:
  assumes "Kind t = TSTRUCT" and "extra t = Struct fs" and "0 \<le> i" and "i < int (length fs)"
  shows "IsPaddedField t i =
           Inr (End (fs ! nat i) \<noteq>
                (if i + 1 < int (length fs) then Offset (fs ! nat (i + 1)) else width t))"
  using assms by (simp add: IsPaddedField_def IsStruct_def Fields_def Field_at_def)

text \<open>
  From here on the defining equation of \<open>AlgType\<close> is no longer unfolded by the
  simplifier; the equations above are used instead.
\<close>

declare AlgType.simps(1) [simp del]

subsection \<open>The field loop up to the first incomparable field\<close>

lemma fields_loop_first_bad:
  assumes "Kind t = TSTRUCT" and "extra t = Struct (seen @ pre @ f # post)"
    and "\<forall>g\<in>set pre. \<exists>b. AlgType (Type g) = Inr b \<and> b \<noteq> ANOEQ \<and> b \<noteq> ANOALG"
    and "AlgType (Type f) = Inr a" and "a = ANOEQ \<or> a = ANOALG"
  shows "AlgType_fields t (pre @ f # post) (int (length seen)) ret = Inr a"
  using assms
proof (induction pre arbitrary: seen ret)
  case Nil
  then show ?case by auto
next
  case (Cons g pre)
  from Cons.prems(3) obtain b where b: "AlgType (Type g) = Inr b" "b \<noteq> ANOEQ" "b \<noteq> ANOALG"
    by auto
  have ex: "extra t = Struct ((seen @ [g]) @ pre @ f # post)"
    using Cons.prems(2) by simp
  have rest: "\<forall>h\<in>set pre. \<exists>b. AlgType (Type h) = Inr b \<and> b \<noteq> ANOEQ \<and> b \<noteq> ANOALG"
    using Cons.prems(3) by simp
  have IH: "AlgType_fields t (pre @ f # post) (int (length seen) + 1) r = Inr a" for r
    using Cons.IH [OF Cons.prems(1) ex rest Cons.prems(4) Cons.prems(5), of r] by (simp add: add.commute)
  have pad: "\<exists>p. IsPaddedField t (int (length seen)) = Inr p"
    using IsPaddedField_struct [OF Cons.prems(1) Cons.prems(2), of "int (length seen)"] by simp
  then obtain p where p: "IsPaddedField t (int (length seen)) = Inr p" ..
  show ?case
    using b p IH by simp
qed

lemma struct_first_bad:
  assumes "\<forall>g\<in>set pre. \<exists>b. AlgType (Type g) = Inr b \<and> b \<noteq> ANOEQ \<and> b \<noteq> ANOALG"
    and "AlgType (Type f) = Inr a" and "a = ANOEQ \<or> a = ANOALG"
  shows "AlgType (MkType TSTRUCT False w (Struct (pre @ f # post))) = Inr a"
proof (cases "length (pre @ f # post) = 1 \<and> \<not> IsBlank (Sym ((pre @ f # post) ! 0))")
  case True
  then have "pre = []" by simp
  then have "post = []" and "\<not> IsBlank (Sym f)" using True by simp_all
  then show ?thesis using \<open>pre = []\<close> assms(2) by (simp add: AlgType_struct_single)
next
  case False
  have "AlgType_fields (MkType TSTRUCT False w (Struct (pre @ f # post))) (pre @ f # post)
          (int (length ([]::Field list))) AMEM = Inr a"
    by (rule fields_loop_first_bad [OF _ _ assms]) simp_all
  then show ?thesis by (simp only: AlgType_struct_loop [OF False] list.size int_ops(1))
qed

subsection \<open>The Noalg flag\<close>

text \<open>
  C10. The \<open>Noalg\<close> check of line 41 precedes the switch on the kind: a type whose
  \<open>Noalg\<close> flag is set classifies as \<open>ANOALG\<close> whatever its kind and payload, also
  for a kind that the switch does not name, and the fatal abort of line 127 is not invoked.
\<close>

theorem C10_noalg_precedes_kind_dispatch:
  "AlgType (MkType k True w ex) = Inr ANOALG \<and>
   AlgType (MkType (TOTHER n) True w ex) = Inr ANOALG \<and>
   AlgType (MkType (TOTHER n) True w ex) \<noteq> Inl Fatalf_AlgType"
  by (simp add: AlgType_flagged)

text \<open>The classifications of the example types.\<close>

lemma AlgType_examples:
  "AlgType int8_type = Inr AMEM" "AlgType int32_type = Inr AMEM" "AlgType int64_type = Inr AMEM"
  "AlgType float32_type = Inr AFLOAT32" "AlgType float64_type = Inr AFLOAT64"
  "AlgType map_type = Inr ANOEQ" "AlgType noalg_int32_type = Inr ANOALG"
  by (simp_all add: AlgType.simps(1))

subsection \<open>Arrays\<close>

text \<open>
  C1, as stated (every array of element count 0 classifies as \<open>AMEM\<close>, also when its
  element classifies as \<open>ANOEQ\<close> or \<open>ANOALG\<close>), fails: line 86 returns the element's
  \<open>ANOEQ\<close> before the element count is looked at. An array of no maps is \<open>ANOEQ\<close>.
\<close>

theorem C1_counterexample:
  "AlgType map_type = Inr ANOEQ \<and>
   AlgType (MkType TARRAY False 0 (Array map_type 0)) = Inr ANOEQ \<and>
   AlgType (MkType TARRAY False 0 (Array map_type 0)) \<noteq> Inr AMEM"
  by (simp add: AlgType_examples AlgType_array)

text \<open>
  C1, amended. An array of element count 0 whose \<open>Noalg\<close> flag is not set classifies as
  the element's tag when that is \<open>ANOEQ\<close> or \<open>ANOALG\<close>, and as \<open>AMEM\<close> for every
  other tag of the element (\<open>ASPECIAL\<close> and the semantics-aware tags included); a fatal
  abort in the element is the array's.
\<close>

theorem C1_zero_length_array:
  "AlgType (MkType TARRAY False w (Array elem 0)) =
     (case AlgType elem of
        Inl e \<Rightarrow> Inl e
      | Inr a \<Rightarrow> if a = ANOEQ \<or> a = ANOALG then Inr a else Inr AMEM)"
  by (simp add: AlgType_array split: sum.split)

subsection \<open>Single components\<close>

text \<open>
  C6. A struct (not flagged \<open>Noalg\<close>) of exactly one field, that field not blank,
  classifies as the field's type does; an array (not flagged) of element count 1 classifies
  as its element does, for every outcome of the element and so for the semantics-aware
  tags.
\<close>

theorem C6_single_component:
  "(\<not> IsBlank (Sym f) \<longrightarrow>
      AlgType (MkType TSTRUCT False w (Struct [f])) = AlgType (Type f)) \<and>
   AlgType (MkType TARRAY False w' (Array elem 1)) = AlgType elem"
  by (simp add: AlgType_struct_single AlgType_array split: sum.split)

theorem C6_witness:
  "\<not> IsBlank (Sym (named float32_type 0)) \<and>
   AlgType (MkType TSTRUCT False 4 (Struct [named float32_type 0])) = Inr AFLOAT32 \<and>
   AlgType (MkType TARRAY False 8 (Array float64_type 1)) = Inr AFLOAT64"
proof -
  have h: "\<not> IsBlank (Sym (named float32_type 0))" by simp
  show ?thesis
    using h C6_single_component [of "named float32_type 0" 4 8 float64_type]
    by (simp add: AlgType_examples)
qed

subsection \<open>Incomparable fields of a struct\<close>

text \<open>
  C4. In a struct (not flagged \<open>Noalg\<close>) with fields \<open>pre @ f # post\<close>, where \<open>f\<close> is
  the first field whose type classifies as \<open>ANOEQ\<close> or \<open>ANOALG\<close> (every field of
  \<open>pre\<close> classifies as another tag), the struct classifies as the tag of \<open>f\<close>, whatever
  the fields \<open>post\<close> after it are.
\<close>

theorem C4_struct_first_incomparable_field:
  assumes "\<forall>g\<in>set pre. \<exists>b. AlgType (Type g) = Inr b \<and> b \<noteq> ANOEQ \<and> b \<noteq> ANOALG"
    and "AlgType (Type f) = Inr a" and "a = ANOEQ \<or> a = ANOALG"
  shows "AlgType (MkType TSTRUCT False w (Struct (pre @ f # post))) = Inr a"
  using assms by (rule struct_first_bad)

theorem C4_witness:
  "AlgType int32_type = Inr AMEM \<and> AlgType map_type = Inr ANOEQ \<and>
   AlgType (MkType TSTRUCT False 24
     (Struct [named int32_type 0, named map_type 8, named int32_type 16])) = Inr ANOEQ"
proof -
  have h1: "\<forall>g\<in>set [named int32_type 0].
              \<exists>b. AlgType (Type g) = Inr b \<and> b \<noteq> ANOEQ \<and> b \<noteq> ANOALG"
    by (simp add: AlgType_examples)
  have h2: "AlgType (Type (named map_type 8)) = Inr ANOEQ"
    by (simp add: AlgType_examples)
  have h3: "ANOEQ = ANOEQ \<or> ANOEQ = ANOALG" by simp
  show ?thesis
    using C4_struct_first_incomparable_field [OF h1 h2 h3, of 24 "[named int32_type 16]"]
    by (simp add: AlgType_examples)
qed

text \<open>
  C3, as stated (a composite with a component that classifies as \<open>ANOALG\<close> is
  \<open>ANOALG\<close>), fails: the loop returns at the first field that is \<open>ANOEQ\<close> or
  \<open>ANOALG\<close> (line 113), so a struct with a map field before a \<open>Noalg\<close> field is
  \<open>ANOEQ\<close>.
\<close>

theorem C3_counterexample:
  "AlgType (Type (named noalg_int32_type 8)) = Inr ANOALG \<and>
   AlgType (MkType TSTRUCT False 16 (Struct [named map_type 0, named noalg_int32_type 8]))
     = Inr ANOEQ \<and>
   AlgType (MkType TSTRUCT False 16 (Struct [named map_type 0, named noalg_int32_type 8]))
     \<noteq> Inr ANOALG"
  by (simp add: AlgType_examples AlgType_struct)

text \<open>
  C3, amended. A type whose \<open>Noalg\<close> flag is set classifies as \<open>ANOALG\<close>, whatever
  else it is. An array (not flagged) whose element classifies as \<open>ANOALG\<close> is
  \<open>ANOALG\<close>. A struct (not flagged) with a field that classifies as \<open>ANOALG\<close> is
  \<open>ANOALG\<close> when every earlier field classifies as a tag other than \<open>ANOEQ\<close>.
\<close>

theorem C3_noalg_propagation:
  "AlgType (MkType k True w ex) = Inr ANOALG \<and>
   (AlgType elem = Inr ANOALG \<longrightarrow>
      AlgType (MkType TARRAY False w (Array elem n)) = Inr ANOALG) \<and>
   ((\<forall>g\<in>set pre. \<exists>b. AlgType (Type g) = Inr b \<and> b \<noteq> ANOEQ) \<and>
    AlgType (Type f) = Inr ANOALG \<longrightarrow>
      AlgType (MkType TSTRUCT False w (Struct (pre @ f # post))) = Inr ANOALG)"
proof (intro conjI impI)
  show "AlgType (MkType k True w ex) = Inr ANOALG" by (rule AlgType_flagged)
next
  assume "AlgType elem = Inr ANOALG"
  then show "AlgType (MkType TARRAY False w (Array elem n)) = Inr ANOALG"
    by (simp add: AlgType_array)
next
  assume a: "(\<forall>g\<in>set pre. \<exists>b. AlgType (Type g) = Inr b \<and> b \<noteq> ANOEQ) \<and>
             AlgType (Type f) = Inr ANOALG"
  show "AlgType (MkType TSTRUCT False w (Struct (pre @ f # post))) = Inr ANOALG"
  proof (cases "\<exists>g\<in>set pre. AlgType (Type g) = Inr ANOALG")
    case True
    then obtain p1 g p2 where sp: "pre = p1 @ g # p2" "AlgType (Type g) = Inr ANOALG"
      "\<forall>h\<in>set p1. AlgType (Type h) \<noteq> Inr ANOALG"
      by (auto dest!: split_list_first_prop)
    have ok: "\<forall>h\<in>set p1. \<exists>b. AlgType (Type h) = Inr b \<and> b \<noteq> ANOEQ \<and> b \<noteq> ANOALG"
      using a sp(1) sp(3) by auto
    have "AlgType (MkType TSTRUCT False w (Struct (p1 @ g # (p2 @ f # post)))) = Inr ANOALG"
      by (rule struct_first_bad [OF ok sp(2)]) simp
    then show ?thesis using sp(1) by simp
  next
    case False
    then have ok: "\<forall>h\<in>set pre. \<exists>b. AlgType (Type h) = Inr b \<and> b \<noteq> ANOEQ \<and> b \<noteq> ANOALG"
      using a by auto
    show ?thesis
      by (rule struct_first_bad [OF ok conjunct2 [OF a]]) simp
  qed
qed

theorem C3_witness:
  "AlgType noalg_int32_type = Inr ANOALG \<and>
   AlgType (MkType TARRAY False 12 (Array noalg_int32_type 3)) = Inr ANOALG \<and>
   AlgType (MkType TSTRUCT False 12
     (Struct [named int32_type 0, named noalg_int32_type 4, named map_type 8])) = Inr ANOALG"
proof -
  have h1: "AlgType noalg_int32_type = Inr ANOALG" by (simp add: AlgType_examples)
  have h2: "(\<forall>g\<in>set [named int32_type 0]. \<exists>b. AlgType (Type g) = Inr b \<and> b \<noteq> ANOEQ) \<and>
            AlgType (Type (named noalg_int32_type 4)) = Inr ANOALG"
    by (simp add: AlgType_examples)
  show ?thesis
    using h1 h2 C3_noalg_propagation [of TINT32 12 NoExtra noalg_int32_type 3
      "[named int32_type 0]" "named noalg_int32_type 4" "[named map_type 8]"]
    by simp
qed

subsection \<open>The padding check\<close>

text \<open>
  In a laid-out field list the end offset of the field at a valid index does not exceed
  the offset of the next field, or the struct's width for the last field.
\<close>

lemma laid_out_fields_nth:
  assumes "laid_out_fields fs w" and "i < length fs"
  shows "End (fs ! i) \<le>s (if Suc i < length fs then Offset (fs ! Suc i) else w)"
  using assms
proof (induction fs w arbitrary: i rule: laid_out_fields.induct)
  case (1 w)
  then show ?case by simp
next
  case (2 f w)
  then show ?case by simp
next
  case (3 f g fs w)
  show ?case
  proof (cases i)
    case 0
    then show ?thesis using "3.prems" by simp
  next
    case (Suc j)
    then have "j < length (g # fs)" using "3.prems"(2) by simp
    moreover have "laid_out_fields (g # fs) w" using "3.prems"(1) by simp
    ultimately have
      "End ((g # fs) ! j) \<le>s (if Suc j < length (g # fs) then Offset ((g # fs) ! Suc j) else w)"
      by (rule "3.IH" [rotated])
    then show ?thesis using Suc by (auto split: if_splits)
  qed
qed

text \<open>
  C2. For a struct type (laid out, as the types handed to this unit are) and an index
  \<open>i\<close> inside its fields, the padding check returns, and reports padding if and only if
  the end offset of field \<open>i\<close> (its offset plus its type's width) is strictly less than
  \<^verbatim>\<open>end\<close>, the offset of field \<open>i + 1\<close> if there is one and the struct's width
  otherwise. Line 163 compares with \<^verbatim>\<open>!=\<close>; in a laid-out struct the end offset never
  exceeds \<^verbatim>\<open>end\<close>, so differing from it is being strictly less.
\<close>

theorem C2_padding_check:
  assumes "IsStruct t" and "extra t = Struct fs" and "laid_out t"
    and "0 \<le> i" and "i < int (length fs)"
  shows "IsPaddedField t i =
           Inr (End (fs ! nat i) <s
                (if i + 1 < int (length fs) then Offset (fs ! nat (i + 1)) else width t))"
proof -
  have k: "Kind t = TSTRUCT" using assms(1) by (simp add: IsStruct_def)
  have lo: "laid_out_fields fs (width t)"
    using assms(2) assms(3) by (simp add: laid_out_def)
  have n: "nat i < length fs" using assms(4) assms(5) by simp
  have s: "nat (i + 1) = Suc (nat i)" using assms(4) by simp
  have c: "(i + 1 < int (length fs)) = (Suc (nat i) < length fs)" using assms(4) by auto
  have le: "End (fs ! nat i) \<le>s
              (if i + 1 < int (length fs) then Offset (fs ! nat (i + 1)) else width t)"
    using laid_out_fields_nth [OF lo n] by (simp only: s c)
  show ?thesis
    using le
    by (simp only: IsPaddedField_struct [OF k assms(2) assms(4) assms(5)] word_sless_eq)
      simp
qed

theorem C2_witness:
  "IsStruct (MkType TSTRUCT False 8 (Struct [named int8_type 0, named int32_type 4])) \<and>
   laid_out (MkType TSTRUCT False 8 (Struct [named int8_type 0, named int32_type 4])) \<and>
   IsPaddedField (MkType TSTRUCT False 8 (Struct [named int8_type 0, named int32_type 4])) 0
     = Inr True \<and>
   IsPaddedField (MkType TSTRUCT False 8 (Struct [named int8_type 0, named int32_type 4])) 1
     = Inr False"
proof -
  let ?t = "MkType TSTRUCT False 8 (Struct [named int8_type 0, named int32_type 4])"
  have s: "IsStruct ?t" by (simp add: IsStruct_def)
  have e: "extra ?t = Struct [named int8_type 0, named int32_type 4]" by simp
  have l: "laid_out ?t" by (simp add: laid_out_def End_def word_sle_eq)
  have "IsPaddedField ?t 0 = Inr True"
    using C2_padding_check [OF s e l, of 0] by (simp add: End_def word_sless_alt)
  moreover have "IsPaddedField ?t 1 = Inr False"
    using C2_padding_check [OF s e l, of 1] by (simp add: End_def word_sless_alt)
  ultimately show ?thesis using s l by simp
qed

subsection \<open>Derived predicates\<close>

text \<open>
  C7. When \<open>AlgType t\<close> returns the tag \<open>a\<close>, \<open>TypeHasNoAlg t\<close> returns whether
  \<open>a\<close> is \<open>ANOALG\<close> and \<open>IsComparable t\<close> returns whether \<open>a\<close> is neither
  \<open>ANOEQ\<close> nor \<open>ANOALG\<close>. So \<open>TypeHasNoAlg t\<close> is true if and only if \<open>AlgType t\<close>
  is \<open>ANOALG\<close>, \<open>IsComparable t\<close> is true if and only if \<open>AlgType t\<close> is a tag other
  than \<open>ANOEQ\<close> and \<open>ANOALG\<close>, and a type that classifies as \<open>ASPECIAL\<close> is
  comparable.
\<close>

theorem C7_derived_predicates:
  "(AlgType t = Inr a \<longrightarrow>
      TypeHasNoAlg t = Inr (a = ANOALG) \<and> IsComparable t = Inr (a \<noteq> ANOEQ \<and> a \<noteq> ANOALG)) \<and>
   (TypeHasNoAlg t = Inr True \<longleftrightarrow> AlgType t = Inr ANOALG) \<and>
   (IsComparable t = Inr True \<longleftrightarrow> (\<exists>b. AlgType t = Inr b \<and> b \<noteq> ANOEQ \<and> b \<noteq> ANOALG)) \<and>
   (AlgType t = Inr ASPECIAL \<longrightarrow> IsComparable t = Inr True)"
  by (auto simp: TypeHasNoAlg_def IsComparable_def split: sum.splits)

lemma AlgType_padded_example:
  "AlgType (MkType TSTRUCT False 8 (Struct [named int8_type 0, named int32_type 4])) = Inr ASPECIAL"
  by (simp add: AlgType_struct AlgType_examples IsPaddedField_def IsStruct_def Fields_def
      Field_at_def End_def)

theorem C7_witness:
  "AlgType (MkType TSTRUCT False 8 (Struct [named int8_type 0, named int32_type 4])) = Inr ASPECIAL \<and>
   TypeHasNoAlg (MkType TSTRUCT False 8 (Struct [named int8_type 0, named int32_type 4])) = Inr False \<and>
   IsComparable (MkType TSTRUCT False 8 (Struct [named int8_type 0, named int32_type 4])) = Inr True"
  using AlgType_padded_example
    C7_derived_predicates [of "MkType TSTRUCT False 8 (Struct [named int8_type 0, named int32_type 4])" ASPECIAL]
  by simp

subsection \<open>IncomparableField\<close>

lemma IncomparableField_loop_first:
  assumes "\<forall>g\<in>set pre. IsComparable (Type g) = Inr True" and "IsComparable (Type f) = Inr False"
  shows "IncomparableField_loop (pre @ f # post) = Inr (Some f)"
  using assms by (induction pre) simp_all

lemma IncomparableField_loop_none:
  assumes "\<forall>g\<in>set fs. IsComparable (Type g) = Inr True"
  shows "IncomparableField_loop fs = Inr None"
  using assms by (induction fs) simp_all

lemma IncomparableField_loop_find:
  assumes "\<forall>g\<in>set fs. \<exists>a. AlgType (Type g) = Inr a"
  shows "IncomparableField_loop fs =
           Inr (find (\<lambda>g. AlgType (Type g) = Inr ANOEQ \<or> AlgType (Type g) = Inr ANOALG) fs)"
  using assms by (induction fs) (auto simp: IsComparable_def)

text \<open>
  C8. For a struct type with fields \<open>fs\<close>: \<open>IncomparableField\<close> returns the field
  \<open>f\<close> when \<open>fs = pre @ f # post\<close>, every field of \<open>pre\<close> has a comparable type and
  the type of \<open>f\<close> is not comparable (per \<open>IsComparable\<close>); it returns \<open>None\<close> when
  every field's type is comparable; and, the fields' types all classifying, the result is
  the first field whose type classifies as \<open>ANOEQ\<close> or \<open>ANOALG\<close>, a function of
  these classifications alone: no \<open>Sym\<close>, offset or width occurs in it.
\<close>

theorem C8_incomparable_field:
  "(fs = pre @ f # post \<and> (\<forall>g\<in>set pre. IsComparable (Type g) = Inr True) \<and>
    IsComparable (Type f) = Inr False \<longrightarrow>
      IncomparableField (MkType TSTRUCT na w (Struct fs)) = Inr (Some f)) \<and>
   ((\<forall>g\<in>set fs. IsComparable (Type g) = Inr True) \<longrightarrow>
      IncomparableField (MkType TSTRUCT na w (Struct fs)) = Inr None) \<and>
   ((\<forall>g\<in>set fs. \<exists>a. AlgType (Type g) = Inr a) \<longrightarrow>
      IncomparableField (MkType TSTRUCT na w (Struct fs)) =
        Inr (find (\<lambda>g. AlgType (Type g) = Inr ANOEQ \<or> AlgType (Type g) = Inr ANOALG) fs))"
  by (simp add: IncomparableField_def Fields_def IncomparableField_loop_first
      IncomparableField_loop_none IncomparableField_loop_find)

theorem C8_witness:
  "IncomparableField (MkType TSTRUCT False 24
     (Struct [named int32_type 0, named map_type 8, named int32_type 16]))
     = Inr (Some (named map_type 8)) \<and>
   IncomparableField (MkType TSTRUCT False 8 (Struct [named int8_type 0, blank int32_type 4]))
     = Inr None"
proof -
  have c: "IsComparable int32_type = Inr True" "IsComparable int8_type = Inr True"
    "IsComparable map_type = Inr False"
    by (simp_all add: IsComparable_def AlgType_examples)
  have "IncomparableField (MkType TSTRUCT False 24
     (Struct [named int32_type 0, named map_type 8, named int32_type 16]))
     = Inr (Some (named map_type 8))"
    using C8_incomparable_field [of "[named int32_type 0, named map_type 8, named int32_type 16]"
        "[named int32_type 0]" "named map_type 8" "[named int32_type 16]" False 24] c
    by simp
  moreover have "IncomparableField
      (MkType TSTRUCT False 8 (Struct [named int8_type 0, blank int32_type 4])) = Inr None"
    using C8_incomparable_field [of "[named int8_type 0, blank int32_type 4]" "[]"
        "named int8_type 0" "[blank int32_type 4]" False 8] c
    by simp
  ultimately show ?thesis by simp
qed

subsection \<open>Structs without incomparable fields\<close>




subsection \<open>Totality and the fatal aborts\<close>

text \<open>
  A failure of the field loop is a failure of classifying one of the fields: on a struct
  and inside its fields the padding check returns.
\<close>

lemma fields_loop_failure:
  assumes "Kind t = TSTRUCT" and "extra t = Struct (seen @ rest)"
    and "\<forall>g\<in>set rest. \<forall>e. AlgType (Type g) = Inl e \<longrightarrow> E e"
    and "AlgType_fields t rest (int (length seen)) ret = Inl e"
  shows "E e"
  using assms
proof (induction rest arbitrary: seen ret)
  case Nil
  then show ?case by simp
next
  case (Cons g rest)
  have ex: "extra t = Struct ((seen @ [g]) @ rest)"
    using Cons.prems(2) by simp
  have ok: "\<forall>h\<in>set rest. \<forall>e. AlgType (Type h) = Inl e \<longrightarrow> E e"
    using Cons.prems(3) by simp
  have IH: "AlgType_fields t rest (int (length seen) + 1) r = Inl e \<Longrightarrow> E e" for r
    using Cons.IH [OF Cons.prems(1) ex ok, of r] by (simp add: add.commute)
  obtain p where p: "IsPaddedField t (int (length seen)) = Inr p"
    using IsPaddedField_struct [OF Cons.prems(1) Cons.prems(2), of "int (length seen)"] by simp
  show ?case
  proof (cases "AlgType (Type g)")
    case (Inl e')
    then have "e' = e" using Cons.prems(4) by simp
    then show ?thesis using Inl Cons.prems(3) by simp
  next
    case (Inr a)
    then show ?thesis
      using Cons.prems(4) p IH by (auto split: if_splits)
  qed
qed

text \<open>
  \<open>AlgType\<close> fails in two ways only: with the fatal abort of line 127, and then some
  node has a kind that the switch does not name; or on a payload that does not fit its
  kind.
\<close>

lemma AlgType_failure:
  "AlgType t = Inl e \<Longrightarrow>
   (e = Fatalf_AlgType \<and> \<not> kinds_closed t) \<or> (e = Panic_extra \<and> \<not> payload_ok t)"
proof (induction t arbitrary: e rule: measure_induct_rule [of size])
  case (less t)
  obtain k na w ex where t: "t = MkType k na w ex" by (cases t)
  show ?case
  proof (cases na)
    case True
    then show ?thesis using less.prems t by (simp add: AlgType_flagged)
  next
    case False
    note na = this
    show ?thesis
    proof (cases k)
      case TINTER
      then show ?thesis
        using less.prems na by (cases ex) (simp_all add: t AlgType.simps(1) split: if_splits)
    next
      case TARRAY
      show ?thesis
      proof (cases ex)
        case (Array elem n)
        have "AlgType elem = Inl e"
          using less.prems na
          by (simp add: t TARRAY Array AlgType_array split: sum.splits if_splits)
        moreover have "size elem < size t" by (simp add: t Array)
        ultimately have "(e = Fatalf_AlgType \<and> \<not> kinds_closed elem) \<or>
                         (e = Panic_extra \<and> \<not> payload_ok elem)"
          using less.IH by blast
        then show ?thesis by (auto simp: t TARRAY Array)
      qed (use less.prems na in \<open>simp_all add: t TARRAY AlgType.simps(1)\<close>)
    next
      case TSTRUCT
      show ?thesis
      proof (cases ex)
        case (Struct fs)
        have t': "t = MkType TSTRUCT False w (Struct fs)"
          using t TSTRUCT Struct na by simp
        have sub: "(e' = Fatalf_AlgType \<and> \<not> kinds_closed t) \<or> (e' = Panic_extra \<and> \<not> payload_ok t)"
          if g: "g \<in> set fs" and r: "AlgType (Type g) = Inl e'" for g e'
        proof -
          have "size (Type g) < size t"
            using size_Type_in_fields [OF g] by (simp add: t')
          then have "(e' = Fatalf_AlgType \<and> \<not> kinds_closed (Type g)) \<or>
                     (e' = Panic_extra \<and> \<not> payload_ok (Type g))"
            using less.IH r by blast
          then show ?thesis using g by (auto simp: t' list_all_iff)
        qed
        show ?thesis
        proof (cases "length fs = 1 \<and> \<not> IsBlank (Sym (fs ! 0))")
          case True
          then have "fs ! 0 \<in> set fs" by simp
          moreover have "AlgType (Type (fs ! 0)) = Inl e"
            using less.prems True by (simp add: t' AlgType_struct)
          ultimately show ?thesis by (rule sub)
        next
          case False
          have "AlgType_fields t fs (int (length ([]::Field list))) AMEM = Inl e"
            using less.prems by (simp add: t' AlgType_struct_loop [OF False])
          then show ?thesis
            by (rule fields_loop_failure [rotated 3]) (use sub in \<open>auto simp: t'\<close>)
        qed
      qed (use less.prems na in \<open>simp_all add: t TSTRUCT AlgType.simps(1)\<close>)
    next
      case (TOTHER n)
      then show ?thesis
        using less.prems na by (simp add: t AlgType.simps(1) named_kind_def)
    qed (use less.prems na in \<open>simp_all add: t AlgType.simps(1)\<close>)
  qed
qed

lemma IsPaddedField_fatal:
  "IsPaddedField t i = Inl Fatalf_IsPaddedField \<longleftrightarrow> \<not> IsStruct t"
  by (auto simp: IsPaddedField_def Fields_def Field_at_def split: sum.splits Extra.splits if_splits)

text \<open>
  C9. On a type graph whose kinds are all in the closed set (and whose payloads fit their
  kinds) \<open>AlgType\<close> returns a tag. It invokes the fatal abort of line 127 only when some
  node has a kind outside the closed set, and does invoke it on such a kind; it never ends
  in the fatal abort of the padding check. \<open>IsPaddedField\<close> invokes its fatal abort
  exactly when its argument is not a struct, so on a struct the abort is unreachable.
\<close>

theorem C9_totality_and_aborts:
  "(kinds_closed t \<and> payload_ok t \<longrightarrow> (\<exists>a. AlgType t = Inr a)) \<and>
   (AlgType t = Inl Fatalf_AlgType \<longrightarrow> \<not> kinds_closed t) \<and>
   AlgType t \<noteq> Inl Fatalf_IsPaddedField \<and>
   AlgType (MkType (TOTHER n) False w ex) = Inl Fatalf_AlgType \<and>
   (IsPaddedField t i = Inl Fatalf_IsPaddedField \<longleftrightarrow> \<not> IsStruct t) \<and>
   (IsStruct t \<longrightarrow> IsPaddedField t i \<noteq> Inl Fatalf_IsPaddedField)"
proof -
  have total: "\<exists>a. AlgType t = Inr a" if "kinds_closed t" and "payload_ok t"
  proof (cases "AlgType t")
    case (Inl e)
    then show ?thesis using AlgType_failure [OF Inl] that by blast
  next
    case (Inr a)
    then show ?thesis by blast
  qed
  have only: "\<not> kinds_closed t" if "AlgType t = Inl Fatalf_AlgType"
    using AlgType_failure [OF that] by simp
  have nopad: "AlgType t \<noteq> Inl Fatalf_IsPaddedField"
    using AlgType_failure [of t Fatalf_IsPaddedField] by auto
  have other: "AlgType (MkType (TOTHER n) False w ex) = Inl Fatalf_AlgType"
    by (simp add: AlgType.simps(1))
  show ?thesis
    using total only nopad other IsPaddedField_fatal [of t i] by blast
qed

theorem C9_witness:
  "kinds_closed (MkType TSTRUCT False 8 (Struct [named int8_type 0, named int32_type 4])) \<and>
   payload_ok (MkType TSTRUCT False 8 (Struct [named int8_type 0, named int32_type 4])) \<and>
   IsStruct (MkType TSTRUCT False 8 (Struct [named int8_type 0, named int32_type 4])) \<and>
   (\<exists>a. AlgType (MkType TSTRUCT False 8 (Struct [named int8_type 0, named int32_type 4])) = Inr a) \<and>
   IsPaddedField (MkType TSTRUCT False 8 (Struct [named int8_type 0, named int32_type 4])) 0
     \<noteq> Inl Fatalf_IsPaddedField"
proof -
  let ?t = "MkType TSTRUCT False 8 (Struct [named int8_type 0, named int32_type 4])"
  have h: "kinds_closed ?t" "payload_ok ?t" "IsStruct ?t"
    by (simp_all add: named_kind_def IsStruct_def)
  show ?thesis
    using h C9_totality_and_aborts [of ?t 0] by blast
qed

end
